theory Spec2Isabelle
  imports
    Complex_Main
    "HOL-Library.FSet"
    "HOL-Library.List_Lexorder"
    "HOL-Library.Char_ord"
begin

section \<open>The pairwise combination risk engine of \<^verbatim>\<open>src/frontend/app.py\<close>\<close>

text \<open>
  The embedding follows the three functions \<^verbatim>\<open>get_drug_side_effects\<close>,
  \<^verbatim>\<open>create_feature_vector\<close> and \<^verbatim>\<open>predict_drug_combinations\<close>.
  Python exceptions are values of type \<open>error\<close>, returned on the left of a sum.
  Python floats are idealised as \<open>real\<close>: rounding and NaN are not modelled.
\<close>

subsection \<open>Data\<close>

datatype error =
    IndexError          \<comment> \<open>\<^verbatim>\<open>.values[0]\<close> on an empty selection\<close>
  | ZeroDivisionError   \<comment> \<open>\<^verbatim>\<open>/\<close> with a zero divisor\<close>
  | ModelError          \<comment> \<open>anything raised by \<^verbatim>\<open>xgb.DMatrix\<close>, \<^verbatim>\<open>model.predict\<close> or \<^verbatim>\<open>float\<close>\<close>

text \<open>
  A row of \<^verbatim>\<open>side_effects_df\<close>; only the two columns the engine reads are kept.
  Both frames call their first column \<^verbatim>\<open>drug_id\<close>; the field of this one is
  \<open>se_drug_id\<close> to keep the two apart.
\<close>

record side_effect_row =
  se_drug_id :: string
  side_effect_name :: string

text \<open>A row of \<^verbatim>\<open>drug_names_df\<close>.\<close>

record drug_name_row =
  drug_id :: string
  drug_name :: string

text \<open>One dictionary appended to \<^verbatim>\<open>combinations\<close>.\<close>

record combination =
  drug :: string
  risk_score :: real
  severity_score :: real
  combined_score :: real
  common_side_effects :: "string fset"

text \<open>
  The severity model is external. \<open>predict fv\<close> stands for
  \<^verbatim>\<open>float(model.predict(xgb.DMatrix(fv.reshape(1, -1)))[0])\<close>, which either raises or
  gives a number; \<open>n_classes\<close> stands for \<^verbatim>\<open>len(label_encoder.classes_)\<close>.
\<close>

type_synonym model = "real list \<Rightarrow> error + real"

subsection \<open>Library operations used by the source\<close>

text \<open>
  \<^verbatim>\<open>Series.unique().tolist()\<close>: the distinct values in order of first appearance.
  \<open>seen\<close> holds the values already emitted.
\<close>

primrec unique_from :: "'a list \<Rightarrow> 'a list \<Rightarrow> 'a list" where
  "unique_from seen [] = []"
| "unique_from seen (x # xs) =
     (if x \<in> set seen then unique_from seen xs else x # unique_from (x # seen) xs)"

definition unique :: "'a list \<Rightarrow> 'a list" where
  "unique xs = unique_from [] xs"

text \<open>
  \<^verbatim>\<open>list.index(x)\<close>: the position of the first element equal to \<open>x\<close>. The source
  calls it only under the guard \<^verbatim>\<open>se in all_side_effects\<close>, so its \<^verbatim>\<open>ValueError\<close>
  is unreachable; for an absent element this function returns the length of the list.
\<close>

primrec index :: "'a list \<Rightarrow> 'a \<Rightarrow> nat" where
  "index [] x = 0"
| "index (y # ys) x = (if y = x then 0 else Suc (index ys x))"

text \<open>Python's true division \<^verbatim>\<open>a / b\<close> on numbers.\<close>

definition truediv :: "real \<Rightarrow> real \<Rightarrow> error + real" where
  "truediv a b = (if b = 0 then Inl ZeroDivisionError else Inr (a / b))"

subsection \<open>\<^verbatim>\<open>get_drug_side_effects\<close>\<close>

definition get_drug_side_effects ::
  "string \<Rightarrow> side_effect_row list \<Rightarrow> drug_name_row list \<Rightarrow> error + string list" where
  "get_drug_side_effects name side_effects_df drug_names_df =
     (case filter (\<lambda>r. drug_name r = name) drug_names_df of
        [] \<Rightarrow> Inl IndexError
      | r # _ \<Rightarrow>
          Inr (map side_effect_name
                 (filter (\<lambda>s. se_drug_id s = drug_id r) side_effects_df)))"

subsection \<open>\<^verbatim>\<open>create_feature_vector\<close>\<close>

text \<open>The body of the \<^verbatim>\<open>for se in ...\<close> loop.\<close>

definition mark :: "string list \<Rightarrow> string \<Rightarrow> real list \<Rightarrow> real list" where
  "mark all_side_effects se feature_vector =
     (if se \<in> set all_side_effects
      then feature_vector[index all_side_effects se := 1]
      else feature_vector)"

text \<open>
  The loop over an explicit iteration order of the union. A Python set is iterated in an
  order the language does not fix, so the order is a parameter here.
\<close>

definition create_feature_vector_in_order :: "string list \<Rightarrow> string list \<Rightarrow> real list" where
  "create_feature_vector_in_order order all_side_effects =
     fold (mark all_side_effects) order (replicate (length all_side_effects) 0)"

text \<open>
  The function itself, iterating the union in sorted order; \<open>feature_vector_any_order\<close>
  below shows that every other iteration order gives the same vector.
\<close>

definition create_feature_vector ::
  "string fset \<Rightarrow> string fset \<Rightarrow> string list \<Rightarrow> real list" where
  "create_feature_vector drug1_ses drug2_ses all_side_effects =
     create_feature_vector_in_order
       (sorted_list_of_fset (drug1_ses |\<union>| drug2_ses)) all_side_effects"

subsection \<open>\<^verbatim>\<open>predict_drug_combinations\<close>\<close>

text \<open>
  The overlap risk of line 71, on the two sets:
  \<^verbatim>\<open>len(common_ses) / (len(drug1_ses) + len(drug2_ses)) * 100\<close>.
\<close>

definition overlap_risk :: "string fset \<Rightarrow> string fset \<Rightarrow> error + real" where
  "overlap_risk drug1_ses drug2_ses =
     (case truediv (real (fcard (drug1_ses |\<inter>| drug2_ses)))
                   (real (fcard drug1_ses + fcard drug2_ses)) of
        Inl e \<Rightarrow> Inl e
      | Inr q \<Rightarrow> Inr (q * 100))"

text \<open>One pass through the body of the loop over \<^verbatim>\<open>other_drugs\<close> (lines 67 to 90).\<close>

definition score_candidate ::
  "model \<Rightarrow> nat \<Rightarrow> side_effect_row list \<Rightarrow> drug_name_row list \<Rightarrow>
   string list \<Rightarrow> string fset \<Rightarrow> string \<Rightarrow> error + combination" where
  "score_candidate predict n_classes side_effects_df drug_names_df
       all_side_effects drug1_ses drug2 =
     (case get_drug_side_effects drug2 side_effects_df drug_names_df of
        Inl e \<Rightarrow> Inl e
      | Inr ses2 \<Rightarrow>
          let drug2_ses = fset_of_list ses2;
              common_ses = drug1_ses |\<inter>| drug2_ses
          in (case overlap_risk drug1_ses drug2_ses of
                Inl e \<Rightarrow> Inl e
              | Inr risk \<Rightarrow>
                  let feature_vector =
                        create_feature_vector drug1_ses drug2_ses all_side_effects
                  in (case predict feature_vector of
                        Inl e \<Rightarrow> Inl e
                      | Inr prediction \<Rightarrow>
                          (case truediv prediction (real n_classes) of
                             Inl e \<Rightarrow> Inl e
                           | Inr q \<Rightarrow>
                               let severity = q * 100;
                                   combined = 0.6 * risk + 0.4 * severity
                               in Inr \<lparr> drug = drug2,
                                        risk_score = risk,
                                        severity_score = severity,
                                        combined_score = combined,
                                        common_side_effects = common_ses \<rparr>))))"

text \<open>
  The loop: \<open>combinations\<close> is the list built so far; the first exception ends the loop
  and is the result.
\<close>

fun score_all ::
  "(string \<Rightarrow> error + combination) \<Rightarrow> string list \<Rightarrow> combination list \<Rightarrow>
   error + combination list" where
  "score_all body [] combinations = Inr combinations"
| "score_all body (drug2 # other_drugs) combinations =
     (case body drug2 of
        Inl e \<Rightarrow> Inl e
      | Inr c \<Rightarrow> score_all body other_drugs (combinations @ [c]))"

text \<open>The candidates of lines 61 and 62.\<close>

definition other_drugs :: "string \<Rightarrow> drug_name_row list \<Rightarrow> string list" where
  "other_drugs drug1 drug_names_df =
     filter (\<lambda>d. d \<noteq> drug1) (unique (map drug_name drug_names_df))"

text \<open>
  \<^verbatim>\<open>sorted(combinations, key=...)\<close> is a stable ascending sort by key, and so is
  \<open>sort_key\<close>; a stable sort of a list is unique, so the two agree.
\<close>

definition predict_drug_combinations ::
  "string \<Rightarrow> model \<Rightarrow> nat \<Rightarrow> side_effect_row list \<Rightarrow> drug_name_row list \<Rightarrow>
   error + combination list" where
  "predict_drug_combinations drug1 predict n_classes side_effects_df drug_names_df =
     (let all_side_effects = unique (map side_effect_name side_effects_df)
      in (case get_drug_side_effects drug1 side_effects_df drug_names_df of
            Inl e \<Rightarrow> Inl e
          | Inr ses1 \<Rightarrow>
              let drug1_ses = fset_of_list ses1
              in (case score_all
                         (score_candidate predict n_classes side_effects_df drug_names_df
                            all_side_effects drug1_ses)
                         (other_drugs drug1 drug_names_df) [] of
                    Inl e \<Rightarrow> Inl e
                  | Inr combinations \<Rightarrow> Inr (sort_key combined_score combinations))))"

subsection \<open>Example data\<close>

text \<open>
  The example of the specification (drug A with nausea and rash, drug B with nausea and
  fatigue, drug C without recorded side effects), extended by a drug D with the profile
  of B, a drug E without side effects, a repeated row and a second record named A.
\<close>

definition example_side_effects_df :: "side_effect_row list" where
  "example_side_effects_df =
     [\<lparr>se_drug_id = ''1'', side_effect_name = ''nausea''\<rparr>,
      \<lparr>se_drug_id = ''1'', side_effect_name = ''rash''\<rparr>,
      \<lparr>se_drug_id = ''1'', side_effect_name = ''nausea''\<rparr>,
      \<lparr>se_drug_id = ''2'', side_effect_name = ''nausea''\<rparr>,
      \<lparr>se_drug_id = ''2'', side_effect_name = ''fatigue''\<rparr>,
      \<lparr>se_drug_id = ''4'', side_effect_name = ''fatigue''\<rparr>,
      \<lparr>se_drug_id = ''4'', side_effect_name = ''nausea''\<rparr>,
      \<lparr>se_drug_id = ''5'', side_effect_name = ''headache''\<rparr>]"

definition example_drug_names_df :: "drug_name_row list" where
  "example_drug_names_df =
     [\<lparr>drug_id = ''1'', drug_name = ''A''\<rparr>,
      \<lparr>drug_id = ''2'', drug_name = ''B''\<rparr>,
      \<lparr>drug_id = ''3'', drug_name = ''C''\<rparr>,
      \<lparr>drug_id = ''4'', drug_name = ''D''\<rparr>,
      \<lparr>drug_id = ''5'', drug_name = ''A''\<rparr>,
      \<lparr>drug_id = ''6'', drug_name = ''E''\<rparr>]"

text \<open>A model that always predicts class 1, and one that fails on vectors with two marks.\<close>

definition stub_model :: model where
  "stub_model fv = Inr 1"

definition failing_model :: model where
  "failing_model fv = (if sum_list fv = 2 then Inl ModelError else Inr 1)"

text \<open>The ranking of the example for anchor A, stub model and two classes.\<close>

definition example_ranking :: "combination list" where
  "example_ranking =
     [\<lparr>drug = ''C'', risk_score = 0, severity_score = 50, combined_score = 20,
        common_side_effects = {||}\<rparr>,
      \<lparr>drug = ''E'', risk_score = 0, severity_score = 50, combined_score = 20,
        common_side_effects = {||}\<rparr>,
      \<lparr>drug = ''B'', risk_score = 25, severity_score = 50, combined_score = 35,
        common_side_effects = {|''nausea''|}\<rparr>,
      \<lparr>drug = ''D'', risk_score = 25, severity_score = 50, combined_score = 35,
        common_side_effects = {|''nausea''|}\<rparr>]"

section \<open>Properties of the library operations\<close>

lemma set_unique_from: "set (unique_from seen xs) = set xs - set seen"
  by (induction xs arbitrary: seen) auto

lemma distinct_unique_from: "distinct (unique_from seen xs)"
  by (induction xs arbitrary: seen) (auto simp: set_unique_from)

lemma set_unique: "set (unique xs) = set xs"
  by (simp add: unique_def set_unique_from)

lemma distinct_unique: "distinct (unique xs)"
  by (simp add: unique_def distinct_unique_from)

lemma index_less: "x \<in> set ys \<Longrightarrow> index ys x < length ys"
  by (induction ys) auto

lemma nth_index: "x \<in> set ys \<Longrightarrow> ys ! index ys x = x"
  by (induction ys) auto

lemma index_first: "x \<notin> set pre \<Longrightarrow> index (pre @ x # post) x = length pre"
  by (induction pre) auto

lemma index_nth_distinct: "distinct ys \<Longrightarrow> i < length ys \<Longrightarrow> index ys (ys ! i) = i"
proof (induction ys arbitrary: i)
  case Nil
  then show ?case by simp
next
  case (Cons y ys)
  then show ?case by (cases i) auto
qed

lemma length_mark: "length (mark all se fv) = length fv"
  by (simp add: mark_def)

lemma length_fold_mark: "length (fold (mark all) order fv) = length fv"
  by (induction order arbitrary: fv) (simp_all add: length_mark)

lemma mark_nth:
  assumes "i < length fv" "length fv = length all"
  shows "mark all se fv ! i = (if all ! i = se \<and> index all (all ! i) = i then 1 else fv ! i)"
proof (cases "se \<in> set all")
  case True
  have "i = index all se \<longleftrightarrow> all ! i = se \<and> index all (all ! i) = i"
    using True nth_index by fastforce
  with True assms show ?thesis
    by (auto simp: mark_def nth_list_update)
next
  case False
  with assms have "all ! i \<noteq> se" by (metis nth_mem)
  with False show ?thesis by (simp add: mark_def)
qed

lemma fold_mark_nth:
  "i < length fv \<Longrightarrow> length fv = length all \<Longrightarrow>
   fold (mark all) order fv ! i =
     (if all ! i \<in> set order \<and> index all (all ! i) = i then 1 else fv ! i)"
proof (induction order arbitrary: fv)
  case Nil
  then show ?case by simp
next
  case (Cons se order)
  have "i < length (mark all se fv)" "length (mark all se fv) = length all"
    using Cons.prems by (simp_all add: length_mark)
  from Cons.IH [OF this] show ?case
    using Cons.prems by (auto simp: mark_nth)
qed

lemma in_order_length:
  "length (create_feature_vector_in_order order all) = length all"
  by (simp add: create_feature_vector_in_order_def length_fold_mark)

lemma in_order_nth:
  "i < length all \<Longrightarrow>
   create_feature_vector_in_order order all ! i =
     (if all ! i \<in> set order \<and> index all (all ! i) = i then 1 else 0)"
  by (simp add: create_feature_vector_in_order_def fold_mark_nth)

lemma feature_vector_any_order:
  assumes "set order = fset (drug1_ses |\<union>| drug2_ses)"
  shows "create_feature_vector_in_order order all =
         create_feature_vector drug1_ses drug2_ses all"
  unfolding create_feature_vector_def
  using assms by (intro nth_equalityI) (simp_all add: in_order_length in_order_nth)

lemma feature_vector_length:
  "length (create_feature_vector A B all) = length all"
  by (simp add: create_feature_vector_def in_order_length)

lemma feature_vector_nth:
  "i < length all \<Longrightarrow>
   create_feature_vector A B all ! i =
     (if all ! i |\<in>| A |\<union>| B \<and> index all (all ! i) = i then 1 else 0)"
  by (simp add: create_feature_vector_def in_order_nth)

section \<open>Properties of the scoring loop\<close>

lemma score_all_Inr:
  "score_all body ds acc = Inr rs \<Longrightarrow>
   \<exists>cs. rs = acc @ cs \<and> list_all2 (\<lambda>d c. body d = Inr c) ds cs"
proof (induction ds arbitrary: acc)
  case Nil
  then show ?case by simp
next
  case (Cons d ds)
  from Cons.prems obtain c where c: "body d = Inr c"
    and rest: "score_all body ds (acc @ [c]) = Inr rs"
    by (auto split: sum.splits)
  from Cons.IH [OF rest] obtain cs where
    "rs = (acc @ [c]) @ cs" "list_all2 (\<lambda>d c. body d = Inr c) ds cs" by blast
  with c have "rs = acc @ (c # cs) \<and> list_all2 (\<lambda>d c. body d = Inr c) (d # ds) (c # cs)"
    by simp
  then show ?case by blast
qed

lemma score_all_total:
  "list_all2 (\<lambda>d c. body d = Inr c) ds cs \<Longrightarrow> score_all body ds acc = Inr (acc @ cs)"
proof (induction ds arbitrary: acc cs)
  case Nil
  then show ?case by simp
next
  case (Cons d ds)
  then show ?case by (cases cs) auto
qed

lemma score_all_Inl:
  "d \<in> set ds \<Longrightarrow> body d = Inl e \<Longrightarrow> \<exists>e'. score_all body ds acc = Inl e'"
proof (induction ds arbitrary: acc)
  case Nil
  then show ?case by simp
next
  case (Cons x ds)
  then show ?case by (cases "body x") auto
qed

lemma score_all_first_failure:
  "\<forall>d \<in> set pre. \<exists>c. body d = Inr c \<Longrightarrow> body d = Inl e \<Longrightarrow>
   score_all body (pre @ d # post) acc = Inl e"
proof (induction pre arbitrary: acc)
  case Nil
  then show ?case by simp
next
  case (Cons x pre)
  then show ?case by (cases "body x") auto
qed

lemma overlap_risk_empty: "overlap_risk {||} {||} = Inl ZeroDivisionError"
  by (simp add: overlap_risk_def truediv_def)

lemma denominator_zero:
  "real (fcard A + fcard B) = 0 \<longleftrightarrow> A = {||} \<and> B = {||}"
  by (simp only: of_nat_eq_0_iff add_eq_0_iff_both_eq_0 fcard_0_eq)

lemma overlap_risk_defined:
  "A \<noteq> {||} \<or> B \<noteq> {||} \<Longrightarrow>
   overlap_risk A B = Inr (real (fcard (A |\<inter>| B)) / real (fcard A + fcard B) * 100)"
  unfolding overlap_risk_def truediv_def
  by (simp only: denominator_zero) auto

lemma overlap_risk_Inr:
  "overlap_risk A B = Inr x \<Longrightarrow>
   (A \<noteq> {||} \<or> B \<noteq> {||}) \<and>
   x = real (fcard (A |\<inter>| B)) / real (fcard A + fcard B) * 100"
  unfolding overlap_risk_def truediv_def
  by (simp only: denominator_zero) (auto split: if_splits)

lemma score_candidate_Inr:
  assumes "score_candidate predict n_classes se_df names_df all A d = Inr c"
  shows "\<exists>ses2 p. get_drug_side_effects d se_df names_df = Inr ses2 \<and>
           overlap_risk A (fset_of_list ses2) = Inr (risk_score c) \<and>
           predict (create_feature_vector A (fset_of_list ses2) all) = Inr p \<and>
           n_classes \<noteq> 0 \<and>
           severity_score c = p / real n_classes * 100 \<and>
           combined_score c = 0.6 * risk_score c + 0.4 * severity_score c \<and>
           common_side_effects c = A |\<inter>| fset_of_list ses2 \<and>
           drug c = d"
  using assms
  by (auto simp: score_candidate_def truediv_def Let_def split: sum.splits if_splits)

lemma score_candidate_model_failure:
  assumes "get_drug_side_effects d se_df names_df = Inr ses2"
    and "predict (create_feature_vector A (fset_of_list ses2) all) = Inl e"
  shows "\<exists>e'. score_candidate predict n_classes se_df names_df all A d = Inl e'"
  using assms
  by (auto simp: score_candidate_def Let_def split: sum.splits)

lemma score_candidate_model_error:
  assumes "get_drug_side_effects d se_df names_df = Inr ses2"
    and "A \<noteq> {||} \<or> fset_of_list ses2 \<noteq> {||}"
    and "predict (create_feature_vector A (fset_of_list ses2) all) = Inl e"
  shows "score_candidate predict n_classes se_df names_df all A d = Inl e"
proof -
  from overlap_risk_defined [OF assms(2)] obtain x where
    "overlap_risk A (fset_of_list ses2) = Inr x" by blast
  with assms(1,3) show ?thesis
    by (simp add: score_candidate_def Let_def)
qed

lemma run_Inr:
  assumes "predict_drug_combinations drug1 predict n_classes se_df names_df = Inr rs"
  shows "\<exists>ses1 cs. get_drug_side_effects drug1 se_df names_df = Inr ses1 \<and>
           list_all2 (\<lambda>d c. score_candidate predict n_classes se_df names_df
                               (unique (map side_effect_name se_df))
                               (fset_of_list ses1) d = Inr c)
                     (other_drugs drug1 names_df) cs \<and>
           rs = sort_key combined_score cs"
proof -
  from assms obtain ses1 cs where
    a: "get_drug_side_effects drug1 se_df names_df = Inr ses1"
    and l: "score_all (score_candidate predict n_classes se_df names_df
                (unique (map side_effect_name se_df)) (fset_of_list ses1))
              (other_drugs drug1 names_df) [] = Inr cs"
    and s: "rs = sort_key combined_score cs"
    by (auto simp: predict_drug_combinations_def Let_def split: sum.splits)
  from score_all_Inr [OF l] a s show ?thesis by auto
qed

lemma list_all2_map_drug:
  "list_all2 (\<lambda>d c. score_candidate predict n_classes se_df names_df all A d = Inr c) ds cs
   \<Longrightarrow> map drug cs = ds"
  by (induction ds cs rule: list_all2_induct) (auto dest: score_candidate_Inr)

lemma run_member:
  assumes "predict_drug_combinations drug1 predict n_classes se_df names_df = Inr rs"
    and "r \<in> set rs"
  shows "\<exists>ses1. get_drug_side_effects drug1 se_df names_df = Inr ses1 \<and>
           drug r \<in> set (other_drugs drug1 names_df) \<and>
           score_candidate predict n_classes se_df names_df
             (unique (map side_effect_name se_df)) (fset_of_list ses1) (drug r) = Inr r"
proof -
  from run_Inr [OF assms(1)] obtain ses1 cs where
    a: "get_drug_side_effects drug1 se_df names_df = Inr ses1"
    and l: "list_all2 (\<lambda>d c. score_candidate predict n_classes se_df names_df
                               (unique (map side_effect_name se_df))
                               (fset_of_list ses1) d = Inr c)
                     (other_drugs drug1 names_df) cs"
    and s: "rs = sort_key combined_score cs" by blast
  from s assms(2) have "r \<in> set cs" by simp
  then obtain i where i: "i < length cs" "cs ! i = r" by (auto simp: in_set_conv_nth)
  from l i have len: "i < length (other_drugs drug1 names_df)"
    by (simp add: list_all2_lengthD)
  from l i have sc: "score_candidate predict n_classes se_df names_df
      (unique (map side_effect_name se_df)) (fset_of_list ses1)
      (other_drugs drug1 names_df ! i) = Inr r"
    by (auto simp: list_all2_conv_all_nth)
  from score_candidate_Inr [OF sc] have "drug r = other_drugs drug1 names_df ! i" by auto
  with sc len a show ?thesis by auto
qed

lemma set_other_drugs:
  "set (other_drugs drug1 names_df) = drug_name ` set names_df - {drug1}"
  by (auto simp: other_drugs_def set_unique)

lemma distinct_other_drugs: "distinct (other_drugs drug1 names_df)"
  by (simp add: other_drugs_def distinct_unique)

section \<open>The example, evaluated\<close>

lemma example_run:
  "predict_drug_combinations ''A'' stub_model 2 example_side_effects_df example_drug_names_df
   = Inr example_ranking"
  by code_simp

lemma example_get_A:
  "get_drug_side_effects ''A'' example_side_effects_df example_drug_names_df
   = Inr [''nausea'', ''rash'', ''nausea'']"
  by code_simp


lemma example_get_C:
  "get_drug_side_effects ''C'' example_side_effects_df example_drug_names_df = Inr []"
  by code_simp

lemma example_other_drugs:
  "other_drugs ''A'' example_drug_names_df = [''B'', ''C'', ''D'', ''E'']"
  by code_simp

lemma example_vocabulary:
  "unique (map side_effect_name example_side_effects_df)
   = [''nausea'', ''rash'', ''fatigue'', ''headache'']"
  by code_simp

lemma example_vector_B:
  "create_feature_vector (fset_of_list [''nausea'', ''rash'', ''nausea''])
     (fset_of_list [''nausea'', ''fatigue''])
     [''nausea'', ''rash'', ''fatigue'', ''headache''] = [1, 1, 1, 0]"
  by code_simp

lemma example_vector_C:
  "create_feature_vector (fset_of_list [''nausea'', ''rash'', ''nausea''])
     (fset_of_list [])
     [''nausea'', ''rash'', ''fatigue'', ''headache''] = [1, 1, 0, 0]"
  by code_simp

section \<open>Order of equal keys under a stable sort\<close>

lemma split_two:
  "i < j \<Longrightarrow> j < length xs \<Longrightarrow> \<exists>us vs ws. xs = us @ xs ! i # vs @ xs ! j # ws"
proof -
  assume ij: "i < j" and j: "j < length xs"
  from j have 1: "xs = take j xs @ xs ! j # drop (Suc j) xs"
    by (rule id_take_nth_drop)
  from ij j have "i < length (take j xs)" by simp
  then have "take j xs = take i (take j xs) @ take j xs ! i # drop (Suc i) (take j xs)"
    by (rule id_take_nth_drop)
  with ij have 2: "take j xs = take i (take j xs) @ xs ! i # drop (Suc i) (take j xs)"
    by simp
  from 1 2 have "xs = take i (take j xs) @ xs ! i # drop (Suc i) (take j xs) @ xs ! j # drop (Suc j) xs"
    by (metis append.assoc append_Cons)
  then show ?thesis by blast
qed

lemma filter_before:
  "filter P cs = us @ a # vs @ b # ws \<Longrightarrow> \<exists>us' vs' ws'. cs = us' @ a # vs' @ b # ws'"
proof (induction cs arbitrary: us)
  case Nil
  then show ?case by simp
next
  case (Cons c cs)
  show ?case
  proof (cases "P c")
    case False
    with Cons.prems have "filter P cs = us @ a # vs @ b # ws" by simp
    from Cons.IH [OF this] obtain us' vs' ws' where "cs = us' @ a # vs' @ b # ws'" by blast
    then have "c # cs = (c # us') @ a # vs' @ b # ws'" by simp
    then show ?thesis by blast
  next
    case True
    with Cons.prems have eq: "c # filter P cs = us @ a # vs @ b # ws" by simp
    show ?thesis
    proof (cases us)
      case Nil
      with eq have c: "c = a" and rest: "filter P cs = vs @ b # ws" by simp_all
      then have "b \<in> set (filter P cs)" by simp
      then have "b \<in> set cs" by simp
      then obtain vs' ws' where "cs = vs' @ b # ws'" by (auto dest: split_list)
      with c have "c # cs = [] @ a # vs' @ b # ws'" by simp
      then show ?thesis by blast
    next
      case (Cons u us2)
      with eq have "filter P cs = us2 @ a # vs @ b # ws" by simp
      from Cons.IH [OF this] obtain us' vs' ws' where "cs = us' @ a # vs' @ b # ws'" by blast
      then have "c # cs = (c # us') @ a # vs' @ b # ws'" by simp
      then show ?thesis by blast
    qed
  qed
qed

lemma index_before:
  assumes "distinct (map f (us @ a # vs @ b # ws))"
  shows "index (map f (us @ a # vs @ b # ws)) (f a) < index (map f (us @ a # vs @ b # ws)) (f b)"
proof -
  from assms have a: "f a \<notin> set (map f us)" by auto
  from assms have b: "f b \<notin> set (map f (us @ a # vs))" by auto
  have "index (map f us @ f a # map f (vs @ b # ws)) (f a) = length (map f us)"
    using a by (rule index_first)
  moreover have "index (map f (us @ a # vs) @ f b # map f ws) (f b) = length (map f (us @ a # vs))"
    using b by (rule index_first)
  ultimately show ?thesis by simp
qed

lemma stable_positions:
  assumes "distinct (map f cs)" and "filter P rs = filter P cs"
    and "i < j" "j < length rs" "P (rs ! i)" "P (rs ! j)"
  shows "index (map f cs) (f (rs ! i)) < index (map f cs) (f (rs ! j))"
proof -
  from split_two [OF assms(3,4)] obtain us vs ws where
    rs: "rs = us @ rs ! i # vs @ rs ! j # ws" by blast
  have "filter P rs = filter P (us @ rs ! i # vs @ rs ! j # ws)"
    using rs by simp
  also have "\<dots> = filter P us @ rs ! i # filter P vs @ rs ! j # filter P ws"
    using assms(5,6) by simp
  finally have "filter P cs = filter P us @ rs ! i # filter P vs @ rs ! j # filter P ws"
    using assms(2) by simp
  from filter_before [OF this] obtain us' vs' ws' where
    cs: "cs = us' @ rs ! i # vs' @ rs ! j # ws'" by blast
  from assms(1) index_before [of f us' "rs ! i" vs' "rs ! j" ws'] show ?thesis
    unfolding cs by blast
qed

section \<open>Failing runs of the example\<close>

lemma example_run_failing_model:
  "predict_drug_combinations ''A'' failing_model 2 example_side_effects_df
     example_drug_names_df = Inl ModelError"
  by code_simp

lemma example_run_empty_anchor:
  "predict_drug_combinations ''C'' stub_model 2 example_side_effects_df
     example_drug_names_df = Inl ZeroDivisionError"
  by code_simp

lemma example_score_B_failing_model:
  "score_candidate failing_model 2 example_side_effects_df example_drug_names_df
     (unique (map side_effect_name example_side_effects_df))
     (fset_of_list [''nausea'', ''rash'', ''nausea'']) ''B'' =
   Inr \<lparr>drug = ''B'', risk_score = 25, severity_score = 50, combined_score = 35,
         common_side_effects = {|''nausea''|}\<rparr>"
  by code_simp

lemma example_get_E:
  "get_drug_side_effects ''E'' example_side_effects_df example_drug_names_df = Inr []"
  by code_simp

lemma example_other_drugs_C:
  "other_drugs ''C'' example_drug_names_df = [''A'', ''B'', ''D'', ''E'']"
  by code_simp

section \<open>Bounds of the overlap risk\<close>

lemma inter_le_half: "2 * fcard (A |\<inter>| B) \<le> fcard A + fcard B"
proof -
  have "fcard (A |\<inter>| B) \<le> fcard A" by (simp add: fcard_mono)
  moreover have "fcard (A |\<inter>| B) \<le> fcard B" by (simp add: fcard_mono)
  ultimately show ?thesis by linarith
qed

lemma overlap_risk_bounds:
  assumes "overlap_risk A B = Inr x"
  shows "0 \<le> x \<and> x \<le> 50"
proof -
  let ?c = "real (fcard (A |\<inter>| B))" and ?n = "real (fcard A + fcard B)"
  from overlap_risk_Inr [OF assms] have ne: "A \<noteq> {||} \<or> B \<noteq> {||}"
    and x: "x = ?c / ?n * 100" by simp_all
  from ne have "?n \<noteq> 0" by (simp only: denominator_zero) simp
  then have pos: "0 < ?n" by simp
  have "real (2 * fcard (A |\<inter>| B)) \<le> ?n"
    using inter_le_half [of A B] by (simp only: of_nat_le_iff)
  then have "2 * ?c \<le> ?n" by simp
  then have half: "?c / ?n \<le> 1 / 2" using pos by (simp add: divide_le_eq)
  have "?c / ?n * 100 \<le> 1 / 2 * 100"
    using half by (rule mult_right_mono) simp
  moreover have "0 \<le> ?c / ?n * 100" by simp
  ultimately show ?thesis unfolding x by simp
qed

lemma overlap_risk_self:
  assumes "A \<noteq> {||}"
  shows "overlap_risk A A = Inr 50"
proof -
  from assms have "fcard A \<noteq> 0" by simp
  then have "real (fcard A) / real (fcard A + fcard A) = 1 / 2" by simp
  with overlap_risk_defined [of A A] assms show ?thesis by simp
qed

section \<open>The claims\<close>

subsection \<open>Overlap risk\<close>



subsection \<open>Composite score\<close>

text \<open>
  Claim C2. In every result of a ranking run, the composite score is 0.6 times the
  overlap risk of the record plus 0.4 times its severity score, and the severity score
  is the prediction of the model on the pair's feature vector, divided by the number of
  classes, times 100.
\<close>

theorem combined_score_of_result:
  assumes "predict_drug_combinations drug1 predict n_classes side_effects_df drug_names_df
           = Inr results"
    and "r \<in> set results"
  shows "combined_score r = 0.6 * risk_score r + 0.4 * severity_score r \<and>
         (\<exists>ses1 ses2 prediction.
            get_drug_side_effects drug1 side_effects_df drug_names_df = Inr ses1 \<and>
            get_drug_side_effects (drug r) side_effects_df drug_names_df = Inr ses2 \<and>
            predict (create_feature_vector (fset_of_list ses1) (fset_of_list ses2)
                       (unique (map side_effect_name side_effects_df))) = Inr prediction \<and>
            severity_score r = prediction / real n_classes * 100)"
proof -
  from run_member [OF assms] obtain ses1 where
    a: "get_drug_side_effects drug1 side_effects_df drug_names_df = Inr ses1"
    and sc: "score_candidate predict n_classes side_effects_df drug_names_df
       (unique (map side_effect_name side_effects_df)) (fset_of_list ses1) (drug r) = Inr r"
    by blast
  from score_candidate_Inr [OF sc] a show ?thesis by blast
qed

theorem combined_score_of_result_witness:
  "combined_score (example_ranking ! 2) = 0.6 * 25 + 0.4 * 50"
proof -
  have m2: "example_ranking ! 2 \<in> set example_ranking"
    by (simp add: example_ranking_def)
  have "risk_score (example_ranking ! 2) = 25" "severity_score (example_ranking ! 2) = 50"
    by (simp_all add: example_ranking_def)
  with combined_score_of_result [OF example_run m2] show ?thesis by simp
qed

subsection \<open>Order of the ranking\<close>

text \<open>
  Claim C3. The list returned by a ranking run is sorted in non-decreasing order of
  composite score, and the sort is stable: of two results with equal composite scores,
  the one that comes first in the ranking is the one whose drug comes first in the
  enumeration of the candidates.
\<close>

theorem ranking_sorted_and_stable:
  assumes "predict_drug_combinations drug1 predict n_classes side_effects_df drug_names_df
           = Inr results"
  shows "sorted (map combined_score results) \<and>
         (\<forall>i j. i < j \<and> j < length results \<and>
                combined_score (results ! i) = combined_score (results ! j) \<longrightarrow>
                index (other_drugs drug1 drug_names_df) (drug (results ! i)) <
                index (other_drugs drug1 drug_names_df) (drug (results ! j)))"
proof -
  from run_Inr [OF assms] obtain ses1 cs where
    l: "list_all2 (\<lambda>d c. score_candidate predict n_classes side_effects_df drug_names_df
                               (unique (map side_effect_name side_effects_df))
                               (fset_of_list ses1) d = Inr c)
                     (other_drugs drug1 drug_names_df) cs"
    and s: "results = sort_key combined_score cs" by blast
  from list_all2_map_drug [OF l] have m: "map drug cs = other_drugs drug1 drug_names_df" .
  then have d: "distinct (map drug cs)" by (simp add: distinct_other_drugs)
  have sorted: "sorted (map combined_score results)"
    unfolding s by (rule sorted_sort_key)
  have "index (other_drugs drug1 drug_names_df) (drug (results ! i)) <
        index (other_drugs drug1 drug_names_df) (drug (results ! j))"
    if "i < j" "j < length results"
      "combined_score (results ! i) = combined_score (results ! j)" for i j
  proof -
    let ?k = "combined_score (results ! j)"
    have "filter (\<lambda>y. combined_score y = ?k) results = filter (\<lambda>y. combined_score y = ?k) cs"
      unfolding s by (rule sort_key_stable)
    from stable_positions [OF d this that(1,2)] that(3) show ?thesis
      unfolding m by simp
  qed
  with sorted show ?thesis by blast
qed

theorem ranking_sorted_and_stable_witness:
  "sorted (map combined_score example_ranking) \<and>
   combined_score (example_ranking ! 2) = combined_score (example_ranking ! 3) \<and>
   index (other_drugs ''A'' example_drug_names_df) (drug (example_ranking ! 2)) <
   index (other_drugs ''A'' example_drug_names_df) (drug (example_ranking ! 3))"
proof -
  have h: "(2::nat) < 3 \<and> 3 < length example_ranking \<and>
        combined_score (example_ranking ! 2) = combined_score (example_ranking ! 3)"
    by (simp add: example_ranking_def)
  from ranking_sorted_and_stable [OF example_run] h show ?thesis by blast
qed

subsection \<open>Two empty profiles\<close>

text \<open>
  Claim C4. When the profiles of the anchor and of a candidate are both empty, the
  overlap risk is 0 and the ranking run raises no arithmetic fault. The source divides
  without a guard: in the example, drugs C and E have no side effects, the overlap risk
  of two empty sets is a \<open>ZeroDivisionError\<close>, and the run for anchor C ends with it.
\<close>

theorem empty_profiles_raise:
  "get_drug_side_effects ''C'' example_side_effects_df example_drug_names_df = Inr [] \<and>
   get_drug_side_effects ''E'' example_side_effects_df example_drug_names_df = Inr [] \<and>
   ''E'' \<in> set (other_drugs ''C'' example_drug_names_df) \<and>
   overlap_risk (fset_of_list []) (fset_of_list []) = Inl ZeroDivisionError \<and>
   predict_drug_combinations ''C'' stub_model 2 example_side_effects_df
     example_drug_names_df = Inl ZeroDivisionError"
  by (simp add: example_get_C example_get_E example_other_drugs_C overlap_risk_empty
        example_run_empty_anchor)

subsection \<open>Identical profiles\<close>

text \<open>
  Claim C5, as stated: the overlap risk of a non-empty profile with itself is 100.
  It is 50 for the profile of drug B.
\<close>

theorem self_overlap_counterexample:
  "overlap_risk {|''nausea'', ''fatigue''|} {|''nausea'', ''fatigue''|} = Inr 50 \<and>
   overlap_risk {|''nausea'', ''fatigue''|} {|''nausea'', ''fatigue''|} \<noteq> Inr 100"
proof -
  have "overlap_risk {|''nausea'', ''fatigue''|} {|''nausea'', ''fatigue''|} = Inr 50"
    by (rule overlap_risk_self) simp
  then show ?thesis by simp
qed

text \<open>
  Claim C5, amended: the overlap risk of a non-empty profile with itself is 50, since
  the divisor counts the profile twice.
\<close>

theorem self_overlap_is_50:
  "A \<noteq> {||} \<Longrightarrow> overlap_risk A A = Inr 50"
  by (rule overlap_risk_self)

theorem self_overlap_is_50_witness:
  "{|''rash''|} \<noteq> {||} \<and> overlap_risk {|''rash''|} {|''rash''|} = Inr 50"
proof -
  have h: "{|''rash''|} \<noteq> {||}" by simp
  from self_overlap_is_50 [OF h] h show ?thesis by simp
qed

subsection \<open>Failure of the severity model\<close>

text \<open>
  Claim C6, as stated: a failure of the model on one candidate is recorded against that
  candidate and the other candidates still get results. In the example the model
  succeeds on the vector of candidate B and fails on the vector of candidate C, and the
  run returns the failure and no result, not even the one of B.
\<close>

theorem model_failure_counterexample:
  "failing_model (create_feature_vector (fset_of_list [''nausea'', ''rash'', ''nausea''])
     (fset_of_list [''nausea'', ''fatigue''])
     [''nausea'', ''rash'', ''fatigue'', ''headache'']) = Inr 1 \<and>
   failing_model (create_feature_vector (fset_of_list [''nausea'', ''rash'', ''nausea''])
     (fset_of_list [])
     [''nausea'', ''rash'', ''fatigue'', ''headache'']) = Inl ModelError \<and>
   predict_drug_combinations ''A'' failing_model 2 example_side_effects_df
     example_drug_names_df = Inl ModelError"
  unfolding example_vector_B example_vector_C
  by (simp add: failing_model_def example_run_failing_model)

text \<open>
  Claim C6, amended. A failure of the model is an exception of the prediction call: the
  model raises, or \<^verbatim>\<open>float\<close> rejects what it returned. If the call fails on the
  feature vector of some candidate, the ranking run returns no result for any candidate
  and ends with an error; when every candidate enumerated before that one is scored and
  the profiles of the anchor and of that candidate are not both empty, the error the run
  ends with is the failure of the model itself, handed to the caller of the run.
\<close>

theorem model_failure_aborts_run:
  assumes "get_drug_side_effects drug1 side_effects_df drug_names_df = Inr ses1"
    and "other_drugs drug1 drug_names_df = before @ drug2 # after"
    and "get_drug_side_effects drug2 side_effects_df drug_names_df = Inr ses2"
    and "predict (create_feature_vector (fset_of_list ses1) (fset_of_list ses2)
                    (unique (map side_effect_name side_effects_df))) = Inl e"
  shows "(\<exists>e'. predict_drug_combinations drug1 predict n_classes side_effects_df
                  drug_names_df = Inl e') \<and>
         ((\<forall>d \<in> set before.
             \<exists>c. score_candidate predict n_classes side_effects_df drug_names_df
                    (unique (map side_effect_name side_effects_df))
                    (fset_of_list ses1) d = Inr c) \<and>
          (fset_of_list ses1 \<noteq> {||} \<or> fset_of_list ses2 \<noteq> {||}) \<longrightarrow>
          predict_drug_combinations drug1 predict n_classes side_effects_df
            drug_names_df = Inl e)"
proof -
  let ?body = "score_candidate predict n_classes side_effects_df drug_names_df
        (unique (map side_effect_name side_effects_df)) (fset_of_list ses1)"
  from assms(2) have m: "drug2 \<in> set (other_drugs drug1 drug_names_df)" by simp
  from score_candidate_model_failure [where predict = predict, OF assms(3,4)] obtain e1
    where "?body drug2 = Inl e1" by blast
  from score_all_Inl [where body = ?body, OF m this] obtain e2 where
    "score_all ?body (other_drugs drug1 drug_names_df) [] = Inl e2" by blast
  with assms(1) have some:
    "\<exists>e'. predict_drug_combinations drug1 predict n_classes side_effects_df
            drug_names_df = Inl e'"
    by (simp add: predict_drug_combinations_def)
  have own: "predict_drug_combinations drug1 predict n_classes side_effects_df
      drug_names_df = Inl e"
    if scored: "\<forall>d \<in> set before. \<exists>c. ?body d = Inr c"
      and ne: "fset_of_list ses1 \<noteq> {||} \<or> fset_of_list ses2 \<noteq> {||}"
  proof -
    from score_candidate_model_error [where predict = predict, OF assms(3) ne assms(4)]
    have "?body drug2 = Inl e" .
    from score_all_first_failure [where body = ?body, OF scored this]
    have "score_all ?body (other_drugs drug1 drug_names_df) [] = Inl e"
      unfolding assms(2) .
    with assms(1) show ?thesis
      by (simp add: predict_drug_combinations_def)
  qed
  from some own show ?thesis by blast
qed

theorem model_failure_aborts_run_witness:
  "predict_drug_combinations ''A'' failing_model 2 example_side_effects_df
     example_drug_names_df = Inl ModelError"
proof -
  have o: "other_drugs ''A'' example_drug_names_df = [''B''] @ ''C'' # [''D'', ''E'']"
    by (simp add: example_other_drugs)
  have f: "failing_model
      (create_feature_vector (fset_of_list [''nausea'', ''rash'', ''nausea''])
         (fset_of_list [])
         (unique (map side_effect_name example_side_effects_df))) = Inl ModelError"
    unfolding example_vocabulary example_vector_C by (simp add: failing_model_def)
  have scored: "\<forall>d \<in> set [''B''].
      \<exists>c. score_candidate failing_model 2 example_side_effects_df example_drug_names_df
             (unique (map side_effect_name example_side_effects_df))
             (fset_of_list [''nausea'', ''rash'', ''nausea'']) d = Inr c"
    using example_score_B_failing_model by (simp del: fset_of_list_simps)
  have ne: "fset_of_list [''nausea'', ''rash'', ''nausea''] \<noteq> {||} \<or>
            fset_of_list ([] :: string list) \<noteq> {||}"
    by simp
  from model_failure_aborts_run [where predict = failing_model and n_classes = 2,
      OF example_get_A o example_get_C f] scored ne
  show ?thesis by blast
qed

subsection \<open>The candidates\<close>

text \<open>
  Claim C7. The candidates are the known drug names other than the anchor's, compared
  by equality of strings, and the anchor never appears in the drugs of its own ranking,
  which has one record for each candidate.
\<close>

theorem anchor_not_a_candidate:
  "set (other_drugs drug1 drug_names_df) = drug_name ` set drug_names_df - {drug1} \<and>
   (predict_drug_combinations drug1 predict n_classes side_effects_df drug_names_df
      = Inr results \<longrightarrow>
    drug1 \<notin> drug ` set results \<and>
    drug ` set results = drug_name ` set drug_names_df - {drug1} \<and>
    length results = length (other_drugs drug1 drug_names_df))"
proof -
  have "drug1 \<notin> drug ` set results \<and>
        drug ` set results = drug_name ` set drug_names_df - {drug1} \<and>
        length results = length (other_drugs drug1 drug_names_df)"
    if run: "predict_drug_combinations drug1 predict n_classes side_effects_df drug_names_df
      = Inr results"
  proof -
    from run_Inr [OF run] obtain ses1 cs where
      l: "list_all2 (\<lambda>d c. score_candidate predict n_classes side_effects_df drug_names_df
                               (unique (map side_effect_name side_effects_df))
                               (fset_of_list ses1) d = Inr c)
                     (other_drugs drug1 drug_names_df) cs"
      and s: "results = sort_key combined_score cs" by blast
    from list_all2_map_drug [OF l] have m: "map drug cs = other_drugs drug1 drug_names_df" .
    have "drug ` set results = set (map drug cs)" unfolding s by simp
    with m have "drug ` set results = drug_name ` set drug_names_df - {drug1}"
      by (simp add: set_other_drugs)
    moreover have "length results = length (other_drugs drug1 drug_names_df)"
      using list_all2_lengthD [OF l] unfolding s by simp
    ultimately show ?thesis by simp
  qed
  then show ?thesis by (simp add: set_other_drugs)
qed

theorem anchor_not_a_candidate_witness:
  "''A'' \<notin> drug ` set example_ranking \<and> length example_ranking = 4"
proof -
  from anchor_not_a_candidate [of "''A''" example_drug_names_df stub_model 2
      example_side_effects_df example_ranking] example_run
  show ?thesis by (simp add: example_other_drugs)
qed

subsection \<open>Lookup of a drug\<close>

text \<open>
  Claim C8. The lookup of a name without a record in the drug names signals an error to
  the caller (the \<open>IndexError\<close> of \<^verbatim>\<open>.values[0]\<close>, which also ends a ranking run for
  such an anchor); when several records carry the name, the identifier of the first one
  selects the side effects.
\<close>

theorem unknown_drug_and_first_match:
  "(name \<notin> drug_name ` set drug_names_df \<longrightarrow>
      get_drug_side_effects name side_effects_df drug_names_df = Inl IndexError \<and>
      predict_drug_combinations name predict n_classes side_effects_df drug_names_df
        = Inl IndexError) \<and>
   (drug_names_df = before @ r # after \<and> name \<notin> drug_name ` set before \<and>
    drug_name r = name \<longrightarrow>
      get_drug_side_effects name side_effects_df drug_names_df =
        Inr (map side_effect_name
               (filter (\<lambda>s. se_drug_id s = drug_id r) side_effects_df)))"
proof -
  have unknown: "get_drug_side_effects name side_effects_df drug_names_df = Inl IndexError"
    if "name \<notin> drug_name ` set drug_names_df"
  proof -
    from that have "filter (\<lambda>r. drug_name r = name) drug_names_df = []"
      by (auto simp: filter_empty_conv)
    then show ?thesis by (simp add: get_drug_side_effects_def)
  qed
  have first: "get_drug_side_effects name side_effects_df drug_names_df =
        Inr (map side_effect_name
               (filter (\<lambda>s. se_drug_id s = drug_id r) side_effects_df))"
    if "drug_names_df = before @ r # after" "name \<notin> drug_name ` set before"
      "drug_name r = name"
  proof -
    from that(2) have "filter (\<lambda>r. drug_name r = name) before = []"
      by (auto simp: filter_empty_conv)
    with that(1,3) have "filter (\<lambda>r. drug_name r = name) drug_names_df =
        r # filter (\<lambda>r. drug_name r = name) after" by simp
    then show ?thesis by (simp add: get_drug_side_effects_def)
  qed
  from unknown first show ?thesis
    by (simp add: predict_drug_combinations_def)
qed

theorem unknown_drug_and_first_match_witness:
  "get_drug_side_effects ''Nonexistent'' example_side_effects_df example_drug_names_df
     = Inl IndexError \<and>
   predict_drug_combinations ''Nonexistent'' stub_model 2 example_side_effects_df
     example_drug_names_df = Inl IndexError \<and>
   get_drug_side_effects ''A'' example_side_effects_df example_drug_names_df =
     Inr (map side_effect_name
            (filter (\<lambda>s. se_drug_id s = ''1'') example_side_effects_df))"
proof -
  have u: "''Nonexistent'' \<notin> drug_name ` set example_drug_names_df"
    by (simp add: example_drug_names_df_def)
  have f: "example_drug_names_df =
        [] @ \<lparr>drug_id = ''1'', drug_name = ''A''\<rparr> #
        [\<lparr>drug_id = ''2'', drug_name = ''B''\<rparr>,
         \<lparr>drug_id = ''3'', drug_name = ''C''\<rparr>,
         \<lparr>drug_id = ''4'', drug_name = ''D''\<rparr>,
         \<lparr>drug_id = ''5'', drug_name = ''A''\<rparr>,
         \<lparr>drug_id = ''6'', drug_name = ''E''\<rparr>] \<and>
      ''A'' \<notin> drug_name ` set [] \<and>
      drug_name \<lparr>drug_id = ''1'', drug_name = ''A''\<rparr> = ''A''"
    by (simp add: example_drug_names_df_def)
  from unknown_drug_and_first_match [where name = "''Nonexistent''"
      and drug_names_df = example_drug_names_df
      and side_effects_df = example_side_effects_df
      and predict = stub_model and n_classes = 2] u
  have 1: "get_drug_side_effects ''Nonexistent'' example_side_effects_df
        example_drug_names_df = Inl IndexError \<and>
      predict_drug_combinations ''Nonexistent'' stub_model 2 example_side_effects_df
        example_drug_names_df = Inl IndexError" by blast
  from unknown_drug_and_first_match [where name = "''A''"
      and drug_names_df = example_drug_names_df and before = "[]"
      and r = "\<lparr>drug_id = ''1'', drug_name = ''A''\<rparr>"
      and side_effects_df = example_side_effects_df] f
  have 2: "get_drug_side_effects ''A'' example_side_effects_df example_drug_names_df =
     Inr (map side_effect_name
            (filter (\<lambda>s. se_drug_id s = ''1'') example_side_effects_df))"
    by simp
  from 1 2 show ?thesis by blast
qed

subsection \<open>The feature vector\<close>

text \<open>
  Claim C9. A vocabulary is the list of the distinct side-effect labels, one slot for
  each, as \<^verbatim>\<open>unique().tolist()\<close> builds it in line 55. For every pair of side-effect
  sets and every vocabulary, the feature vector has the length of the vocabulary, and
  each slot holds 1 if its vocabulary event is in the union of the two sets, else 0.
  Events of the union that are absent from the vocabulary are ignored: removing them
  from both sets gives the same vector, and the function has no error result.
\<close>

theorem feature_vector_slots:
  "distinct (unique (map side_effect_name side_effects_df)) \<and>
   (distinct all_side_effects \<longrightarrow>
      length (create_feature_vector A B all_side_effects) = length all_side_effects \<and>
      (\<forall>i < length all_side_effects.
         create_feature_vector A B all_side_effects ! i =
           (if all_side_effects ! i |\<in>| A |\<union>| B then 1 else 0)) \<and>
      create_feature_vector A B all_side_effects =
        create_feature_vector (ffilter (\<lambda>se. se \<in> set all_side_effects) A)
          (ffilter (\<lambda>se. se \<in> set all_side_effects) B) all_side_effects)"
proof -
  let ?v = "create_feature_vector A B all_side_effects"
  let ?A = "ffilter (\<lambda>se. se \<in> set all_side_effects) A"
  let ?B = "ffilter (\<lambda>se. se \<in> set all_side_effects) B"
  have voc: "distinct (unique (map side_effect_name side_effects_df))"
    by (rule distinct_unique)
  have len: "length ?v = length all_side_effects"
    by (rule feature_vector_length)
  have slots: "\<forall>i < length all_side_effects.
      ?v ! i = (if all_side_effects ! i |\<in>| A |\<union>| B then 1 else 0)"
    if "distinct all_side_effects"
    using that by (simp add: feature_vector_nth index_nth_distinct)
  have ign: "?v = create_feature_vector ?A ?B all_side_effects"
  proof (rule nth_equalityI)
    show "length ?v = length (create_feature_vector ?A ?B all_side_effects)"
      by (simp add: feature_vector_length)
  next
    fix i assume "i < length ?v"
    then have i: "i < length all_side_effects" by (simp add: feature_vector_length)
    then have "all_side_effects ! i \<in> set all_side_effects" by simp
    then have "all_side_effects ! i |\<in>| ?A |\<union>| ?B \<longleftrightarrow>
               all_side_effects ! i |\<in>| A |\<union>| B" by auto
    with i show "?v ! i = create_feature_vector ?A ?B all_side_effects ! i"
      by (simp only: feature_vector_nth)
  qed
  from voc len slots ign show ?thesis by blast
qed

theorem feature_vector_slots_witness:
  "length (create_feature_vector {|''nausea'', ''rash''|} {|''nausea'', ''itch''|}
             [''nausea'', ''rash'', ''fatigue'']) = 3 \<and>
   create_feature_vector {|''nausea'', ''rash''|} {|''nausea'', ''itch''|}
     [''nausea'', ''rash'', ''fatigue''] ! 1 = 1 \<and>
   create_feature_vector {|''nausea'', ''rash''|} {|''nausea'', ''itch''|}
     [''nausea'', ''rash'', ''fatigue''] ! 2 = 0"
proof -
  let ?all = "[''nausea'', ''rash'', ''fatigue'']"
  let ?v = "create_feature_vector {|''nausea'', ''rash''|} {|''nausea'', ''itch''|} ?all"
  have d: "distinct ?all" by simp
  from feature_vector_slots [where A = "{|''nausea'', ''rash''|}"
      and B = "{|''nausea'', ''itch''|}" and all_side_effects = ?all] d
  have len: "length ?v = length ?all"
    and slots: "\<forall>i < length ?all.
        ?v ! i = (if ?all ! i |\<in>| {|''nausea'', ''rash''|} |\<union>| {|''nausea'', ''itch''|}
                  then 1 else 0)"
    by blast+
  have "(1::nat) < length ?all" "(2::nat) < length ?all" by simp_all
  with slots have "?v ! 1 = (if ?all ! 1 |\<in>| {|''nausea'', ''rash''|} |\<union>| {|''nausea'', ''itch''|}
                  then 1 else 0)"
    and "?v ! 2 = (if ?all ! 2 |\<in>| {|''nausea'', ''rash''|} |\<union>| {|''nausea'', ''itch''|}
                  then 1 else 0)"
    by blast+
  with len show ?thesis by simp
qed

subsection \<open>The range of the overlap risk\<close>

text \<open>
  Claim C10. When at least one of the two profiles is non-empty, the overlap risk is
  defined and is at most 50 (and at least 0), because the intersection is no larger than
  either profile; so is the overlap risk of every record of a ranking run.
\<close>

theorem overlap_risk_at_most_50:
  "(A \<noteq> {||} \<or> B \<noteq> {||} \<longrightarrow>
      (\<exists>x. overlap_risk A B = Inr x \<and> 0 \<le> x \<and> x \<le> 50)) \<and>
   (predict_drug_combinations drug1 predict n_classes side_effects_df drug_names_df
      = Inr results \<and> r \<in> set results \<longrightarrow>
    0 \<le> risk_score r \<and> risk_score r \<le> 50)"
proof -
  have 1: "\<exists>x. overlap_risk A B = Inr x \<and> 0 \<le> x \<and> x \<le> 50"
    if "A \<noteq> {||} \<or> B \<noteq> {||}"
  proof -
    from overlap_risk_defined [OF that] obtain x where x: "overlap_risk A B = Inr x"
      by blast
    from overlap_risk_bounds [OF x] x show ?thesis by blast
  qed
  have 2: "0 \<le> risk_score r \<and> risk_score r \<le> 50"
    if run: "predict_drug_combinations drug1 predict n_classes side_effects_df
        drug_names_df = Inr results" and r: "r \<in> set results"
  proof -
    from run_member [OF run r] obtain ses1 where
      sc: "score_candidate predict n_classes side_effects_df drug_names_df
        (unique (map side_effect_name side_effects_df)) (fset_of_list ses1) (drug r) = Inr r"
      by blast
    from score_candidate_Inr [OF sc] obtain ses2 where
      "overlap_risk (fset_of_list ses1) (fset_of_list ses2) = Inr (risk_score r)" by blast
    then show ?thesis by (rule overlap_risk_bounds)
  qed
  from 1 2 show ?thesis by blast
qed

theorem overlap_risk_at_most_50_witness:
  "(\<exists>x. overlap_risk {|''nausea'', ''rash''|} {|''nausea'', ''fatigue''|} = Inr x \<and>
        0 \<le> x \<and> x \<le> 50) \<and>
   risk_score (example_ranking ! 3) \<le> 50"
proof -
  have ne: "{|''nausea'', ''rash''|} \<noteq> {||} \<or> {|''nausea'', ''fatigue''|} \<noteq> {||}"
    by simp
  have m: "example_ranking ! 3 \<in> set example_ranking"
    by (simp add: example_ranking_def)
  from overlap_risk_at_most_50 [of "{|''nausea'', ''rash''|}" "{|''nausea'', ''fatigue''|}"
      "''A''" stub_model 2 example_side_effects_df example_drug_names_df example_ranking
      "example_ranking ! 3"] ne m example_run
  show ?thesis by blast
qed

end
